theory Spec2Isabelle
  imports Main "HOL-Library.Word"
begin

section \<open>The audio recorder hook of apps/web/hooks/useAudioRec.ts\<close>

text \<open>
  The hook \<open>useAudioRecorder\<close> keeps one piece of React state and five refs, and it
  reacts to calls of its operations and to callbacks of the browser: the promise of
  \<open>getUserMedia\<close>, the events of the \<open>MediaRecorder\<close> it created, and the ticks of the
  interval timer. The embedding is a state machine: a record \<open>world\<close> holds the state and
  the refs of the hook together with the part of the browser the hook talks to, every
  function of the source is a function on worlds, and an \<open>event\<close> is one call of an
  operation or one callback the browser runs. JavaScript runs each of them to completion,
  so a run of the program is a list of events.

  Object identities (recorders, streams, timers, object URLs, device requests) are
  natural numbers handed out by counters of the world. The component is rendered between
  two events, so an operation reads the state the last event left.
\<close>

subsection \<open>Blobs\<close>

record blob =
  blob_bytes :: "8 word list"
  blob_type :: string

definition blob_size :: "blob \<Rightarrow> nat" where
  "blob_size b = length (blob_bytes b)"

text \<open>\<open>new Blob(parts, {type})\<close>: the bytes of the parts in order, tagged with the type.\<close>

definition new_Blob :: "blob list \<Rightarrow> string \<Rightarrow> blob" where
  "new_Blob parts ty = \<lparr>blob_bytes = concat (map blob_bytes parts), blob_type = ty\<rparr>"

subsection \<open>The state of the hook\<close>

datatype status = Idle | Recording | Paused | Stopped

record AudioRecorderState =
  status :: status
  recordingTime :: nat
  recordingBlob :: "blob option"
  blobUrl :: "nat option"
  error :: "string option"

definition INITIAL_STATE :: AudioRecorderState where
  "INITIAL_STATE =
     \<lparr>status = Idle, recordingTime = 0, recordingBlob = None, blobUrl = None, error = None\<rparr>"

subsection \<open>The browser objects the hook uses\<close>

text \<open>
  A \<open>MediaRecorder\<close> has the attribute \<open>state\<close>, which its methods change at once, and it
  fires its \<open>pause\<close>, \<open>resume\<close> and \<open>stop\<close> events later, from tasks it queues: \<open>mr_tasks\<close>
  are the events queued and not yet fired. The source adds its \<open>dataavailable\<close>, \<open>stop\<close>
  and \<open>pause\<close> listeners to every recorder it creates, and one more \<open>resume\<close> listener
  each time the \<open>pause\<close> listener runs: \<open>mr_resumeListeners\<close> counts them.
\<close>

datatype RecordingState = Inactive | RecRecording | RecPaused

datatype rtask = EvPause | EvResume | EvStop

record MediaRecorder =
  mr_state :: RecordingState
  mr_stream :: nat
  mr_tasks :: "rtask list"
  mr_resumeListeners :: nat

datatype readyState = Live | Ended

text \<open>
  \<open>start\<close> throws unless the recorder is inactive; \<open>pause\<close>, \<open>resume\<close> and \<open>stop\<close> throw
  on an inactive recorder; \<open>pause\<close> on a paused recorder and \<open>resume\<close> on a recording one do
  nothing. A recorder that ends by itself, because its tracks ended, is outside the model.
\<close>

datatype exn = InvalidStateError

definition new_MediaRecorder :: "nat \<Rightarrow> MediaRecorder" where
  "new_MediaRecorder s =
     \<lparr>mr_state = Inactive, mr_stream = s, mr_tasks = [], mr_resumeListeners = 0\<rparr>"

definition MediaRecorder_start :: "MediaRecorder \<Rightarrow> exn + MediaRecorder" where
  "MediaRecorder_start r =
     (if mr_state r \<noteq> Inactive then Inl InvalidStateError
      else Inr (r\<lparr>mr_state := RecRecording\<rparr>))"

definition MediaRecorder_stop :: "MediaRecorder \<Rightarrow> exn + MediaRecorder" where
  "MediaRecorder_stop r =
     (if mr_state r = Inactive then Inl InvalidStateError
      else Inr (r\<lparr>mr_state := Inactive, mr_tasks := mr_tasks r @ [EvStop]\<rparr>))"

definition MediaRecorder_pause :: "MediaRecorder \<Rightarrow> exn + MediaRecorder" where
  "MediaRecorder_pause r =
     (case mr_state r of
        Inactive \<Rightarrow> Inl InvalidStateError
      | RecPaused \<Rightarrow> Inr r
      | RecRecording \<Rightarrow> Inr (r\<lparr>mr_state := RecPaused, mr_tasks := mr_tasks r @ [EvPause]\<rparr>))"

definition MediaRecorder_resume :: "MediaRecorder \<Rightarrow> exn + MediaRecorder" where
  "MediaRecorder_resume r =
     (case mr_state r of
        Inactive \<Rightarrow> Inl InvalidStateError
      | RecRecording \<Rightarrow> Inr r
      | RecPaused \<Rightarrow> Inr (r\<lparr>mr_state := RecRecording, mr_tasks := mr_tasks r @ [EvResume]\<rparr>))"

subsection \<open>The world: the hook and its browser\<close>

record world =
  state :: AudioRecorderState
  mediaRecorderRef :: "nat option"
  mediaStreamRef :: "nat option"
  chunksRef :: "blob list"
  timerIntervalRef :: "nat option"
  mimeTypeRef :: "string option"
  recorders :: "nat \<Rightarrow> MediaRecorder"
  nrecorders :: nat
  tracks :: "nat \<Rightarrow> readyState list"
  nstreams :: nat
  intervals :: "nat list"
  ntimers :: nat
  objectURLs :: "(nat \<times> blob) list"
  nurls :: nat
  requests :: "nat list"
  nrequests :: nat
  mimeCalls :: nat

text \<open>
  \<open>recorders\<close> and \<open>tracks\<close> are the heap of recorder and stream objects (those below
  \<open>nrecorders\<close> and \<open>nstreams\<close> exist); \<open>intervals\<close> are the interval timers that are set
  and not cleared; \<open>objectURLs\<close> are the object URLs created and not revoked, each with
  its blob; \<open>requests\<close> are the device requests that are pending; \<open>mimeCalls\<close> counts the
  calls of \<open>getBestSupportedMimeType\<close>.
\<close>

definition mount :: world where
  "mount =
     \<lparr>state = INITIAL_STATE, mediaRecorderRef = None, mediaStreamRef = None, chunksRef = [],
      timerIntervalRef = None, mimeTypeRef = None,
      recorders = (\<lambda>_. new_MediaRecorder 0), nrecorders = 0,
      tracks = (\<lambda>_. []), nstreams = 0, intervals = [], ntimers = 0,
      objectURLs = [], nurls = 0, requests = [], nrequests = 0, mimeCalls = 0\<rparr>"

subsection \<open>Timer\<close>

definition clearInterval :: "nat \<Rightarrow> world \<Rightarrow> world" where
  "clearInterval t w = w\<lparr>intervals := removeAll t (intervals w)\<rparr>"

definition setInterval :: "world \<Rightarrow> nat \<times> world" where
  "setInterval w =
     (ntimers w, w\<lparr>intervals := intervals w @ [ntimers w], ntimers := Suc (ntimers w)\<rparr>)"

text \<open>\<open>_clearTimer\<close> of the source.\<close>

definition clearTimer :: "world \<Rightarrow> world" where
  "clearTimer w =
     (case timerIntervalRef w of
        None \<Rightarrow> w
      | Some t \<Rightarrow> (clearInterval t w)\<lparr>timerIntervalRef := None\<rparr>)"

text \<open>The callback of the interval: \<open>setState(prev => {...prev, recordingTime + 1})\<close>.\<close>

definition tick :: "world \<Rightarrow> world" where
  "tick w = w\<lparr>state := (state w)\<lparr>recordingTime := recordingTime (state w) + 1\<rparr>\<rparr>"

text \<open>\<open>_startTimer\<close> of the source.\<close>

definition startTimer :: "world \<Rightarrow> world" where
  "startTimer w =
     (let w1 = clearTimer w;
          (t, w2) = setInterval w1
      in w2\<lparr>timerIntervalRef := Some t\<rparr>)"

subsection \<open>Tracks, reset\<close>

text \<open>\<open>_cleanTracks\<close> of the source: \<open>track.stop()\<close> on every track of the recorder's stream.\<close>

definition cleanTracks :: "nat option \<Rightarrow> world \<Rightarrow> world" where
  "cleanTracks recorder w =
     (case recorder of
        None \<Rightarrow> w
      | Some r \<Rightarrow>
          (let s = mr_stream (recorders w r)
           in w\<lparr>tracks := (tracks w)(s := map (\<lambda>_. Ended) (tracks w s))\<rparr>))"

definition reset :: "world \<Rightarrow> world" where
  "reset w =
     clearTimer
       (w\<lparr>state := INITIAL_STATE, mediaRecorderRef := None, mediaStreamRef := None,
          chunksRef := []\<rparr>)"

subsection \<open>Object URLs\<close>

definition createObjectURL :: "blob \<Rightarrow> world \<Rightarrow> nat \<times> world" where
  "createObjectURL b w =
     (nurls w, w\<lparr>objectURLs := objectURLs w @ [(nurls w, b)], nurls := Suc (nurls w)\<rparr>)"

definition revokeObjectURL :: "nat \<Rightarrow> world \<Rightarrow> world" where
  "revokeObjectURL u w = w\<lparr>objectURLs := filter (\<lambda>p. fst p \<noteq> u) (objectURLs w)\<rparr>"

subsection \<open>startRecording and the listeners it installs\<close>

definition getUserMedia :: "world \<Rightarrow> nat \<times> world" where
  "getUserMedia w =
     (nrequests w, w\<lparr>requests := requests w @ [nrequests w], nrequests := Suc (nrequests w)\<rparr>)"

definition startRecording :: "world \<Rightarrow> world" where
  "startRecording w = snd (getUserMedia (reset w))"

text \<open>
  The \<open>dataavailable\<close> listener. The ref \<open>chunksRef\<close> is read when the listener runs, so
  the chunk goes to the array the ref holds then.
\<close>

definition onDataavailable :: "blob \<Rightarrow> world \<Rightarrow> world" where
  "onDataavailable d w =
     (if blob_size d > 0 then w\<lparr>chunksRef := chunksRef w @ [d]\<rparr> else w)"

text \<open>
  \<open>mimeTypeRef.current!\<close> is the type the blob is given; the ref is \<open>string | null\<close>, and
  JavaScript turns \<open>null\<close> into the string \<open>null\<close> there.
\<close>

definition blobType :: "string option \<Rightarrow> string" where
  "blobType m = (case m of None \<Rightarrow> ''null'' | Some ty \<Rightarrow> ty)"

text \<open>The \<open>stop\<close> listener of recorder \<open>r\<close>.\<close>

definition onStop :: "nat \<Rightarrow> world \<Rightarrow> world" where
  "onStop r w =
     (let audioBlob = new_Blob (chunksRef w) (blobType (mimeTypeRef w));
          (url, w1) = createObjectURL audioBlob w;
          w2 = clearTimer w1;
          w3 = w2\<lparr>state := (state w2)\<lparr>status := Stopped, recordingBlob := Some audioBlob,
                                        blobUrl := Some url\<rparr>\<rparr>
      in cleanTracks (Some r) w3)"

text \<open>The \<open>pause\<close> listener of recorder \<open>r\<close>; it ends by adding a \<open>resume\<close> listener.\<close>

definition onPause :: "nat \<Rightarrow> world \<Rightarrow> world" where
  "onPause r w =
     (let audioBlob = new_Blob (chunksRef w) (blobType (mimeTypeRef w));
          (url, w1) = createObjectURL audioBlob w;
          w2 = clearTimer w1;
          w3 = w2\<lparr>state := (state w2)\<lparr>status := Paused, recordingBlob := Some audioBlob,
                                        blobUrl := Some url\<rparr>\<rparr>
      in w3\<lparr>recorders := (recorders w3)
              (r := (recorders w3 r)\<lparr>mr_resumeListeners :=
                                        Suc (mr_resumeListeners (recorders w3 r))\<rparr>)\<rparr>)"

text \<open>A \<open>resume\<close> listener.\<close>

definition onResume :: "world \<Rightarrow> world" where
  "onResume w = w\<lparr>state := (state w)\<lparr>status := Recording\<rparr>\<rparr>"

text \<open>
  The callback of \<open>getUserMedia(...).then\<close>, for the stream \<open>stream\<close>; \<open>mimeType\<close> is what
  \<open>getBestSupportedMimeType()\<close> (of \<open>@/hooks/audioConst\<close>, not part of the source file)
  returns to this call. The result is the exception thrown, if any, and the world.
\<close>

definition onStream :: "nat \<Rightarrow> string \<Rightarrow> world \<Rightarrow> exn option \<times> world" where
  "onStream stream mimeType w =
     (let w1 = w\<lparr>mediaStreamRef := Some stream\<rparr>;
          w2 = w1\<lparr>mimeCalls := Suc (mimeCalls w1)\<rparr>;
          w3 = w2\<lparr>mimeTypeRef := Some mimeType\<rparr>;
          r = nrecorders w3;
          w4 = w3\<lparr>recorders := (recorders w3)(r := new_MediaRecorder stream),
                  nrecorders := Suc r\<rparr>;
          w5 = w4\<lparr>mediaRecorderRef := Some r\<rparr>
      in case MediaRecorder_start (recorders w5 r) of
           Inl x \<Rightarrow> (Some x, w5)
         | Inr rec \<Rightarrow>
             (let w6 = w5\<lparr>recorders := (recorders w5)(r := rec)\<rparr>;
                  w7 = startTimer w6
              in (None, w7\<lparr>state := (state w7)\<lparr>status := Recording,
                                                 recordingBlob := None\<rparr>\<rparr>)))"

subsection \<open>stopRecording, togglePauseResume, the cleanup effect\<close>

definition stopRecording :: "world \<Rightarrow> exn option \<times> world" where
  "stopRecording w =
     (case mediaRecorderRef w of
        None \<Rightarrow> (None, w)
      | Some r \<Rightarrow>
          if mr_state (recorders w r) = Inactive then (None, w)
          else
            (let w1 = clearTimer w
             in case MediaRecorder_stop (recorders w1 r) of
                  Inl x \<Rightarrow> (Some x, w1)
                | Inr rec \<Rightarrow> (None, w1\<lparr>recorders := (recorders w1)(r := rec)\<rparr>)))"

definition togglePauseResume :: "world \<Rightarrow> exn option \<times> world" where
  "togglePauseResume w =
     (case mediaRecorderRef w of
        None \<Rightarrow> (None, w)
      | Some r \<Rightarrow>
          if mr_state (recorders w r) = Inactive then (None, w)
          else if status (state w) = Paused then
            (case MediaRecorder_resume (recorders w r) of
               Inl x \<Rightarrow> (Some x, w)
             | Inr rec \<Rightarrow> (None, startTimer (w\<lparr>recorders := (recorders w)(r := rec)\<rparr>)))
          else
            (let w1 = clearTimer w;
                 w2 = (case blobUrl (state w) of
                         None \<Rightarrow> w1
                       | Some u \<Rightarrow> revokeObjectURL u w1)
             in case MediaRecorder_pause (recorders w2 r) of
                  Inl x \<Rightarrow> (Some x, w2)
                | Inr rec \<Rightarrow> (None, w2\<lparr>recorders := (recorders w2)(r := rec)\<rparr>)))"

text \<open>The cleanup of the effect, run when the component is unmounted.\<close>

definition cleanup :: "world \<Rightarrow> world" where
  "cleanup w = clearTimer (cleanTracks (mediaRecorderRef w) w)"

subsection \<open>Events\<close>

text \<open>
  The operations of the hook (\<open>releaseResources\<close> is \<open>reset\<close>) and the callbacks of the
  browser. The browser runs a callback only where the source registered one:
  \<^item> \<open>Resolve q m\<close>, \<open>Reject q\<close>: the pending device request \<open>q\<close> settles; the source gives
    \<open>then\<close> one callback, for the stream, and none for a rejection;
  \<^item> \<open>DataAvailable r d\<close>: recorder \<open>r\<close> delivers the chunk \<open>d\<close>;
  \<^item> \<open>Fire r t\<close>: recorder \<open>r\<close> fires the event at the head of its queue, which is \<open>t\<close>;
  \<^item> \<open>Tick t\<close>: the interval \<open>t\<close>, set and not cleared, expires once more.
\<close>

datatype event =
    StartRecording
  | StopRecording
  | TogglePauseResume
  | ReleaseResources
  | Unmount
  | Resolve nat string
  | Reject nat
  | DataAvailable nat blob
  | Fire nat rtask
  | Tick nat

definition resolve :: "nat \<Rightarrow> string \<Rightarrow> world \<Rightarrow> world" where
  "resolve q m w =
     (if q \<in> set (requests w) then
        (let s = nstreams w;
             w1 = w\<lparr>requests := removeAll q (requests w),
                    tracks := (tracks w)(s := [Live]), nstreams := Suc s\<rparr>
         in snd (onStream s m w1))
      else w)"

definition reject :: "nat \<Rightarrow> world \<Rightarrow> world" where
  "reject q w = (if q \<in> set (requests w) then w\<lparr>requests := removeAll q (requests w)\<rparr> else w)"

definition fire :: "nat \<Rightarrow> rtask \<Rightarrow> world \<Rightarrow> world" where
  "fire r t w =
     (if r < nrecorders w \<and> take 1 (mr_tasks (recorders w r)) = [t] then
        (let rec = recorders w r;
             w1 = w\<lparr>recorders := (recorders w)(r := rec\<lparr>mr_tasks := tl (mr_tasks rec)\<rparr>)\<rparr>
         in case t of
              EvPause \<Rightarrow> onPause r w1
            | EvStop \<Rightarrow> onStop r w1
            | EvResume \<Rightarrow> (onResume ^^ mr_resumeListeners rec) w1)
      else w)"

fun step :: "event \<Rightarrow> world \<Rightarrow> world" where
  "step StartRecording w = startRecording w"
| "step StopRecording w = snd (stopRecording w)"
| "step TogglePauseResume w = snd (togglePauseResume w)"
| "step ReleaseResources w = reset w"
| "step Unmount w = cleanup w"
| "step (Resolve q m) w = resolve q m w"
| "step (Reject q) w = reject q w"
| "step (DataAvailable r d) w = (if r < nrecorders w then onDataavailable d w else w)"
| "step (Fire r t) w = fire r t w"
| "step (Tick t) w = (if t \<in> set (intervals w) then tick w else w)"

fun run :: "event list \<Rightarrow> world \<Rightarrow> world" where
  "run [] w = w"
| "run (e # es) w = run es (step e w)"

subsection \<open>Sessions\<close>

text \<open>No recorder is bound, or the bound one is inactive.\<close>

definition unbound :: "world \<Rightarrow> bool" where
  "unbound w =
     (case mediaRecorderRef w of
        None \<Rightarrow> True
      | Some r \<Rightarrow> mr_state (recorders w r) = Inactive)"

text \<open>
  The events of one session, the one of recorder \<open>r\<close>: everything but a new start, a
  reset, the unmounting, the settling of a device request and the events of other
  recorders.
\<close>

fun session_event :: "nat \<Rightarrow> event \<Rightarrow> bool" where
  "session_event r StopRecording = True"
| "session_event r TogglePauseResume = True"
| "session_event r (DataAvailable r' d) = (r' = r)"
| "session_event r (Fire r' t) = (r' = r)"
| "session_event r (Tick t) = True"
| "session_event r _ = False"

text \<open>The chunks the recorder delivered in a run, in the order of arrival.\<close>

fun delivered :: "event list \<Rightarrow> blob list" where
  "delivered [] = []"
| "delivered (DataAvailable r d # es) = d # delivered es"
| "delivered (_ # es) = delivered es"

fun is_Tick :: "event \<Rightarrow> bool" where
  "is_Tick (Tick t) = True"
| "is_Tick _ = False"

text \<open>The only interval that is set is the one \<open>timerIntervalRef\<close> holds.\<close>

definition timer_inv :: "world \<Rightarrow> bool" where
  "timer_inv w = (intervals w = (case timerIntervalRef w of None \<Rightarrow> [] | Some t \<Rightarrow> [t]))"

text \<open>
  What holds during the session of recorder \<open>r\<close>: the timer runs exactly while the
  recorder records, and the status of the hook lags behind the state of the recorder by
  the one event that is queued.
\<close>

definition session_inv :: "nat \<Rightarrow> world \<Rightarrow> bool" where
  "session_inv r w =
     (mediaRecorderRef w = Some r \<and> r < nrecorders w \<and> timer_inv w \<and>
      (case mr_state (recorders w r) of
         Inactive \<Rightarrow> timerIntervalRef w = None
       | RecRecording \<Rightarrow>
           timerIntervalRef w \<noteq> None \<and>
           (status (state w) = Recording \<and> mr_tasks (recorders w r) = [] \<or>
            status (state w) = Paused \<and> mr_tasks (recorders w r) = [EvResume] \<and>
              0 < mr_resumeListeners (recorders w r))
       | RecPaused \<Rightarrow>
           timerIntervalRef w = None \<and>
           (status (state w) = Recording \<and> mr_tasks (recorders w r) = [EvPause] \<or>
            status (state w) = Paused \<and> mr_tasks (recorders w r) = [] \<and>
              0 < mr_resumeListeners (recorders w r))))"

text \<open>A chunk of \<open>n\<close> zero bytes, for the concrete runs.\<close>

definition silence :: "nat \<Rightarrow> blob" where
  "silence n = \<lparr>blob_bytes = replicate n 0, blob_type = ''audio/webm''\<rparr>"

section \<open>Properties\<close>

subsection \<open>Unfolding and frame lemmas\<close>

lemmas platform_defs = new_MediaRecorder_def MediaRecorder_start_def MediaRecorder_stop_def
  MediaRecorder_pause_def MediaRecorder_resume_def clearInterval_def setInterval_def
  createObjectURL_def revokeObjectURL_def getUserMedia_def new_Blob_def

lemmas timer_defs = clearTimer_def startTimer_def

lemmas hook_defs = tick_def cleanTracks_def reset_def
  startRecording_def onDataavailable_def blobType_def onStop_def onPause_def onResume_def
  onStream_def stopRecording_def togglePauseResume_def cleanup_def resolve_def reject_def
  fire_def INITIAL_STATE_def Let_def

lemma clearTimer_frame [simp]:
  "state (clearTimer w) = state w"
  "mediaRecorderRef (clearTimer w) = mediaRecorderRef w"
  "mediaStreamRef (clearTimer w) = mediaStreamRef w"
  "chunksRef (clearTimer w) = chunksRef w"
  "mimeTypeRef (clearTimer w) = mimeTypeRef w"
  "recorders (clearTimer w) = recorders w"
  "nrecorders (clearTimer w) = nrecorders w"
  "tracks (clearTimer w) = tracks w"
  "nstreams (clearTimer w) = nstreams w"
  "ntimers (clearTimer w) = ntimers w"
  "objectURLs (clearTimer w) = objectURLs w"
  "nurls (clearTimer w) = nurls w"
  "requests (clearTimer w) = requests w"
  "nrequests (clearTimer w) = nrequests w"
  "mimeCalls (clearTimer w) = mimeCalls w"
  "timerIntervalRef (clearTimer w) = None"
  by (simp_all add: clearTimer_def clearInterval_def split: option.splits)

lemma startTimer_frame [simp]:
  "state (startTimer w) = state w"
  "mediaRecorderRef (startTimer w) = mediaRecorderRef w"
  "mediaStreamRef (startTimer w) = mediaStreamRef w"
  "chunksRef (startTimer w) = chunksRef w"
  "mimeTypeRef (startTimer w) = mimeTypeRef w"
  "recorders (startTimer w) = recorders w"
  "nrecorders (startTimer w) = nrecorders w"
  "tracks (startTimer w) = tracks w"
  "nstreams (startTimer w) = nstreams w"
  "objectURLs (startTimer w) = objectURLs w"
  "nurls (startTimer w) = nurls w"
  "requests (startTimer w) = requests w"
  "nrequests (startTimer w) = nrequests w"
  "mimeCalls (startTimer w) = mimeCalls w"
  "timerIntervalRef (startTimer w) = Some (ntimers w)"
  "ntimers (startTimer w) = Suc (ntimers w)"
  "intervals (startTimer w) = intervals (clearTimer w) @ [ntimers w]"
  by (simp_all add: startTimer_def setInterval_def Let_def)

lemma onResume_funpow: "(onResume ^^ n) w = (if n = 0 then w else onResume w)"
  by (induction n) (auto simp add: onResume_def)

lemma run_append: "run (xs @ ys) w = run ys (run xs w)"
  by (induction xs arbitrary: w) auto

lemma delivered_append: "delivered (xs @ ys) = delivered xs @ delivered ys"
  by (induction xs rule: delivered.induct) auto

subsection \<open>What the events of a session leave alone\<close>

lemma session_step_frame:
  "session_event r e \<Longrightarrow>
     nrecorders (step e w) = nrecorders w \<and> mimeTypeRef (step e w) = mimeTypeRef w \<and>
     mimeCalls (step e w) = mimeCalls w \<and>
     chunksRef (step e w) =
       chunksRef w @
         (if r < nrecorders w then filter (\<lambda>d. 0 < blob_size d) (delivered [e]) else [])"
  by (cases e)
     (auto simp add: hook_defs platform_defs onResume_funpow
           split: option.splits RecordingState.splits rtask.splits)

lemma session_run_frame:
  "\<forall>e\<in>set es. session_event r e \<Longrightarrow> r < nrecorders w \<Longrightarrow>
     nrecorders (run es w) = nrecorders w \<and> mimeTypeRef (run es w) = mimeTypeRef w \<and>
     mimeCalls (run es w) = mimeCalls w \<and>
     chunksRef (run es w) = chunksRef w @ filter (\<lambda>d. 0 < blob_size d) (delivered es)"
proof (induction es arbitrary: w)
  case Nil
  then show ?case by simp
next
  case (Cons e es)
  have e: "session_event r e" using Cons.prems by simp
  note f = session_step_frame [OF e, of w]
  have "r < nrecorders (step e w)" using f Cons.prems by simp
  with Cons have ih:
    "nrecorders (run es (step e w)) = nrecorders (step e w) \<and>
     mimeTypeRef (run es (step e w)) = mimeTypeRef (step e w) \<and>
     mimeCalls (run es (step e w)) = mimeCalls (step e w) \<and>
     chunksRef (run es (step e w)) =
       chunksRef (step e w) @ filter (\<lambda>d. 0 < blob_size d) (delivered es)"
    by simp
  have d: "delivered (e # es) = delivered [e] @ delivered es"
    using delivered_append [of "[e]" es] by simp
  show ?case using ih f Cons.prems(2) by (simp add: d)
qed

lemma start_resolve:
  "run [StartRecording, Resolve (nrequests w) m] w = w' \<Longrightarrow>
     chunksRef w' = [] \<and> nrecorders w' = Suc (nrecorders w) \<and> mimeTypeRef w' = Some m \<and>
     mimeCalls w' = Suc (mimeCalls w) \<and> status (state w') = Recording"
  by (auto simp add: hook_defs platform_defs split: option.splits)

lemma concat_nonempty:
  "concat (map blob_bytes (filter (\<lambda>d. 0 < blob_size d) ds)) = concat (map blob_bytes ds)"
  by (induction ds) (auto simp add: blob_size_def)

lemma fire_stop:
  "r < nrecorders w \<Longrightarrow> take 1 (mr_tasks (recorders w r)) = [EvStop] \<Longrightarrow>
     chunksRef (fire r EvStop w) = chunksRef w \<and>
     recordingBlob (state (fire r EvStop w)) =
       Some (new_Blob (chunksRef w) (blobType (mimeTypeRef w))) \<and>
     status (state (fire r EvStop w)) = Stopped"
  by (simp add: fire_def onStop_def createObjectURL_def cleanTracks_def Let_def)

subsection \<open>C1: the fragments and the artifact at stop\<close>

text \<open>
  C1. Take a start whose device request is granted (recorder \<open>r\<close> is created), followed by
  any events \<open>es\<close> of that session: chunks arriving, calls of \<open>togglePauseResume\<close> and
  \<open>stopRecording\<close>, pause and resume events, ticks. When the \<open>stop\<close> event of the
  recorder then fires, \<open>chunksRef\<close> holds exactly the non-empty chunks delivered in \<open>es\<close>,
  in the order of arrival; the artifact is the blob built from them and tagged with the
  format chosen at the start; its bytes are the concatenation of the delivered chunks and
  its size is the sum of their sizes (an empty chunk adds nothing); the status is
  \<open>Stopped\<close>. In the run with chunks of 120, 130, 0 and 140 bytes the artifact has 390
  bytes.
\<close>

theorem fragments_at_stop:
  assumes es: "\<forall>e\<in>set es. session_event (nrecorders w) e"
    and q: "take 1 (mr_tasks (recorders (run (StartRecording # Resolve (nrequests w) m # es) w)
                                (nrecorders w))) = [EvStop]"
  shows "let w' = run (StartRecording # Resolve (nrequests w) m # es @
                         [Fire (nrecorders w) EvStop]) w
         in chunksRef w' = filter (\<lambda>d. 0 < blob_size d) (delivered es) \<and>
            recordingBlob (state w') = Some (new_Blob (chunksRef w') m) \<and>
            blob_bytes (new_Blob (chunksRef w') m) = concat (map blob_bytes (delivered es)) \<and>
            blob_size (new_Blob (chunksRef w') m) = sum_list (map blob_size (delivered es)) \<and>
            status (state w') = Stopped"
proof -
  define w1 where "w1 = run [StartRecording, Resolve (nrequests w) m] w"
  define w2 where "w2 = run es w1"
  have s: "chunksRef w1 = [] \<and> nrecorders w1 = Suc (nrecorders w) \<and> mimeTypeRef w1 = Some m"
    using start_resolve [of w m w1] by (simp add: w1_def)
  then have f: "nrecorders w2 = Suc (nrecorders w) \<and> mimeTypeRef w2 = Some m \<and>
      chunksRef w2 = filter (\<lambda>d. 0 < blob_size d) (delivered es)"
    using session_run_frame [OF es, of w1] by (simp add: w2_def)
  have r2: "run (StartRecording # Resolve (nrequests w) m # es) w = w2"
    using run_append [of "[StartRecording, Resolve (nrequests w) m]" es w]
    by (simp add: w1_def w2_def)
  have r3: "run (StartRecording # Resolve (nrequests w) m # es @ [Fire (nrecorders w) EvStop]) w
      = fire (nrecorders w) EvStop w2"
    using run_append [of "StartRecording # Resolve (nrequests w) m # es"
        "[Fire (nrecorders w) EvStop]" w] r2
    by simp
  have q2: "take 1 (mr_tasks (recorders w2 (nrecorders w))) = [EvStop]"
    using q r2 by simp
  have lt: "nrecorders w < nrecorders w2" using f by simp
  note fs = fire_stop [OF lt q2]
  have b: "blob_bytes (new_Blob (chunksRef w2) m) = concat (map blob_bytes (delivered es))"
    using f by (simp add: new_Blob_def concat_nonempty)
  have "blob_size (new_Blob (chunksRef w2) m) = length (concat (map blob_bytes (delivered es)))"
    using b by (simp add: blob_size_def)
  then have sz: "blob_size (new_Blob (chunksRef w2) m) = sum_list (map blob_size (delivered es))"
    by (simp add: length_concat comp_def blob_size_def [abs_def])
  show ?thesis
    unfolding Let_def r3 using fs f b sz by (simp add: blobType_def)
qed

theorem fragments_at_stop_witness:
  "let w' = run [StartRecording, Resolve 0 ''audio/webm'',
                 DataAvailable 0 (silence 120), DataAvailable 0 (silence 130),
                 DataAvailable 0 (silence 0), DataAvailable 0 (silence 140),
                 StopRecording, Fire 0 EvStop] mount
   in chunksRef w' = [silence 120, silence 130, silence 140] \<and>
      map_option blob_size (recordingBlob (state w')) = Some 390 \<and>
      status (state w') = Stopped"
proof -
  let ?es = "[DataAvailable 0 (silence 120), DataAvailable 0 (silence 130),
              DataAvailable 0 (silence 0), DataAvailable 0 (silence 140), StopRecording]"
  have h1: "\<forall>e\<in>set ?es. session_event (nrecorders mount) e"
    by (simp add: mount_def)
  have h2: "take 1 (mr_tasks (recorders
                (run (StartRecording # Resolve (nrequests mount) ''audio/webm'' # ?es) mount)
                (nrecorders mount))) = [EvStop]"
    by (simp add: mount_def hook_defs timer_defs platform_defs silence_def blob_size_def)
  show ?thesis
    using fragments_at_stop [OF h1 h2]
    by (simp add: mount_def hook_defs timer_defs platform_defs silence_def blob_size_def)
qed

subsection \<open>C2: a rejected device request\<close>

text \<open>
  C2, as the code has it. The source gives \<open>then\<close> a callback for the stream only, so a
  rejected request runs no code of the hook: the request is gone and nothing else
  changes. After \<open>startRecording\<close> and the rejection of its request the status is \<open>Idle\<close>,
  \<open>chunksRef\<close> is empty, no recorder, stream or timer is bound, and \<open>error\<close> is still
  \<open>None\<close>: the failure is recorded nowhere. A start after that, once its request is granted,
  records.
\<close>

theorem rejected_request_keeps_idle:
  "let w1 = step StartRecording w;
       w2 = step (Reject (nrequests w)) w1;
       w3 = run [StartRecording, Resolve (nrequests w2) m] w2
   in w2 = w1\<lparr>requests := removeAll (nrequests w) (requests w1)\<rparr> \<and>
      status (state w2) = Idle \<and> error (state w2) = None \<and> chunksRef w2 = [] \<and>
      mediaRecorderRef w2 = None \<and> mediaStreamRef w2 = None \<and> timerIntervalRef w2 = None \<and>
      status (state w3) = Recording"
  by (simp add: hook_defs platform_defs)

text \<open>
  C2 as stated asks for \<open>error\<close> to be set after the rejection; in the run of a start and
  the rejection of its request it is not.
\<close>

theorem rejected_request_error_counterexample:
  "\<not> (let w = run [StartRecording, Reject 0] mount
      in status (state w) = Idle \<and> error (state w) \<noteq> None \<and> chunksRef w = [])"
  by (simp add: mount_def hook_defs timer_defs platform_defs)

subsection \<open>C3: a device request that resolves late\<close>

text \<open>
  C3, as the code has it. The callback of a device request does not check which start
  issued the request, so a request that resolves after a reset or a second start is
  handled like any other. Whichever pending request \<open>q\<close> resolves: its stream and a new
  recorder on it, recording, are bound to the refs, the format is selected, the timer is
  started again, the status is \<open>Recording\<close> and \<open>recordingBlob\<close> is \<open>None\<close>. What the callback
  leaves as it was: \<open>chunksRef\<close>, \<open>recordingTime\<close>, \<open>blobUrl\<close> and \<open>error\<close>.
\<close>

theorem stale_resolution_not_ignored:
  assumes "q \<in> set (requests w)"
  shows "let w' = step (Resolve q m) w
         in status (state w') = Recording \<and> recordingBlob (state w') = None \<and>
            mediaStreamRef w' = Some (nstreams w) \<and> tracks w' (nstreams w) = [Live] \<and>
            mediaRecorderRef w' = Some (nrecorders w) \<and>
            recorders w' (nrecorders w) =
              \<lparr>mr_state = RecRecording, mr_stream = nstreams w, mr_tasks = [],
                 mr_resumeListeners = 0\<rparr> \<and>
            mimeTypeRef w' = Some m \<and>
            timerIntervalRef w' = Some (ntimers w) \<and> ntimers w \<in> set (intervals w') \<and>
            q \<notin> set (requests w') \<and>
            chunksRef w' = chunksRef w \<and>
            recordingTime (state w') = recordingTime (state w) \<and>
            blobUrl (state w') = blobUrl (state w) \<and>
            error (state w') = error (state w)"
  using assms by (simp add: hook_defs platform_defs split: option.splits)

text \<open>
  Two starts in a row leave the requests 0 and 1 pending; request 0, of the first start,
  then resolves and binds its stream and recorder, while request 1 is still pending.
\<close>

theorem stale_resolution_not_ignored_witness:
  "0 \<in> set (requests (run [StartRecording, StartRecording] mount)) \<and>
   (let w' = run [StartRecording, StartRecording, Resolve 0 ''audio/webm''] mount
    in status (state w') = Recording \<and> mediaStreamRef w' = Some 0 \<and>
       mediaRecorderRef w' = Some 0 \<and> timerIntervalRef w' = Some 0 \<and> requests w' = [1])"
proof -
  have h: "0 \<in> set (requests (run [StartRecording, StartRecording] mount))"
    by (simp add: mount_def hook_defs timer_defs platform_defs)
  show ?thesis
    using stale_resolution_not_ignored [OF h, of "''audio/webm''"]
    by (simp add: mount_def hook_defs timer_defs platform_defs)
qed

text \<open>
  C3 as stated: after a start and a reset, the request of the start resolves, and status,
  fragments, stream and recorder are as the reset left them. They are not.
\<close>

theorem stale_resolution_counterexample:
  "\<not> (let w1 = run [StartRecording, ReleaseResources] mount;
          w2 = step (Resolve 0 ''audio/webm'') w1
      in status (state w2) = status (state w1) \<and> chunksRef w2 = chunksRef w1 \<and>
         mediaStreamRef w2 = mediaStreamRef w1 \<and> mediaRecorderRef w2 = mediaRecorderRef w1)"
  by (simp add: mount_def hook_defs timer_defs platform_defs)

subsection \<open>C4: releasing the tracks\<close>

lemma cleanTracks_none: "cleanTracks None w = w"
  by (simp add: cleanTracks_def)

lemma cleanTracks_twice: "cleanTracks r (cleanTracks r w) = cleanTracks r w"
  by (cases r) (simp_all add: cleanTracks_def Let_def comp_def)

lemma cleanTracks_ended:
  "tracks (cleanTracks (Some r) w) (mr_stream (recorders w r)) =
     replicate (length (tracks w (mr_stream (recorders w r)))) Ended"
  by (simp add: cleanTracks_def Let_def map_replicate_const)

lemma onStop_ended:
  "tracks (onStop r w) (mr_stream (recorders w r)) =
     replicate (length (tracks w (mr_stream (recorders w r)))) Ended"
  by (simp add: onStop_def createObjectURL_def cleanTracks_def Let_def map_replicate_const)

lemma reset_tracks: "tracks (reset w) = tracks w \<and> recorders (reset w) = recorders w"
  by (simp add: reset_def)

text \<open>
  C4 at a concrete run. Releasing is a no-op without a recorder and the same done twice
  (\<open>cleanTracks_none\<close>, \<open>cleanTracks_twice\<close>), and the \<open>stop\<close> listener ends every track of
  its recorder's stream (\<open>onStop_ended\<close>); but \<open>reset\<close> touches no track and no recorder
  (\<open>reset_tracks\<close>). A start is granted: stream 0 has one live track and recorder 0
  records it. \<open>reset\<close>, which the hook exports as \<open>releaseResources\<close>, then clears both refs
  and leaves the track live and the recorder recording; with the refs cleared, the
  cleanup at unmounting finds no recorder and the track stays live; \<open>stopRecording\<close> finds
  none either and does nothing, and the chunks the recorder goes on delivering land in
  the emptied \<open>chunksRef\<close>. The two other paths
  do call \<open>_cleanTracks\<close>: from the same world, \<open>stopRecording\<close> and the \<open>stop\<close> event end
  the track, and so does unmounting.
\<close>

theorem reset_keeps_tracks_live:
  "let w1 = run [StartRecording, Resolve 0 ''audio/webm''] mount;
       w2 = step ReleaseResources w1;
       w3 = step Unmount w2
   in tracks w1 0 = [Live] \<and> mediaRecorderRef w1 = Some 0 \<and> mr_stream (recorders w1 0) = 0 \<and>
      tracks w2 0 = [Live] \<and> mr_state (recorders w2 0) = RecRecording \<and>
      mediaRecorderRef w2 = None \<and> mediaStreamRef w2 = None \<and>
      tracks w3 0 = [Live] \<and>
      step StopRecording w2 = w2 \<and>
      chunksRef (step (DataAvailable 0 (silence 120)) w2) = [silence 120] \<and>
      tracks (run [StopRecording, Fire 0 EvStop] w1) 0 = [Ended] \<and>
      tracks (step Unmount w1) 0 = [Ended]"
  by (simp add: mount_def hook_defs timer_defs platform_defs silence_def blob_size_def)

subsection \<open>C5: revoking the previous object URL\<close>

text \<open>
  C5 at a concrete run. A start is granted, a chunk arrives, the recording is paused (the
  \<open>pause\<close> listener creates URL 0), resumed, and stopped (the \<open>stop\<close> listener creates
  URL 1). Only the pause branch of \<open>togglePauseResume\<close> revokes the URL of the state;
  \<open>stopRecording\<close> and the \<open>stop\<close> listener revoke nothing: at the end URL 0 is still
  registered beside URL 1.
\<close>

theorem stop_keeps_interim_url:
  "let w1 = run [StartRecording, Resolve 0 ''audio/webm'', DataAvailable 0 (silence 120),
                 TogglePauseResume, Fire 0 EvPause] mount;
       w2 = run [TogglePauseResume, Fire 0 EvResume, DataAvailable 0 (silence 130),
                 StopRecording, Fire 0 EvStop] w1
   in blobUrl (state w1) = Some 0 \<and> map fst (objectURLs w1) = [0] \<and>
      blobUrl (state w2) = Some 1 \<and> map fst (objectURLs w2) = [0, 1]"
  by (simp add: mount_def hook_defs timer_defs platform_defs silence_def blob_size_def)

subsection \<open>C6: operations that change nothing\<close>

lemma reset_reset: "reset (reset w) = reset w"
  by (simp add: reset_def clearTimer_def clearInterval_def split: option.splits)

lemma stop_unbound: "unbound w \<Longrightarrow> stopRecording w = (None, w)"
  by (auto simp add: unbound_def stopRecording_def split: option.splits)

lemma toggle_unbound: "unbound w \<Longrightarrow> togglePauseResume w = (None, w)"
  by (auto simp add: unbound_def togglePauseResume_def split: option.splits)

lemma stop_never_throws: "fst (stopRecording w) = None"
  by (simp add: stopRecording_def MediaRecorder_stop_def Let_def split: option.splits)

lemma toggle_never_throws: "fst (togglePauseResume w) = None"
  by (simp add: togglePauseResume_def MediaRecorder_pause_def MediaRecorder_resume_def Let_def
      revokeObjectURL_def split: option.splits RecordingState.splits)

text \<open>
  C6. A second \<open>reset\<close> changes nothing. With no recorder bound, or an inactive one,
  \<open>stopRecording\<close> and \<open>togglePauseResume\<close> return the world they were given and throw
  nothing; and in no world at all do the two throw.
\<close>

theorem reset_stop_toggle_idempotent:
  "reset (reset w) = reset w \<and>
   (unbound w \<longrightarrow> stopRecording w = (None, w) \<and> togglePauseResume w = (None, w)) \<and>
   fst (stopRecording w) = None \<and> fst (togglePauseResume w) = None"
  using reset_reset stop_unbound toggle_unbound stop_never_throws toggle_never_throws
  by blast

text \<open>The world after a whole session: recorder 0 is bound and inactive.\<close>

theorem reset_stop_toggle_idempotent_witness:
  "let w = run [StartRecording, Resolve 0 ''audio/webm'', StopRecording, Fire 0 EvStop] mount
   in mediaRecorderRef w = Some 0 \<and> unbound w \<and> reset (reset w) = reset w \<and>
      stopRecording w = (None, w) \<and> togglePauseResume w = (None, w)"
proof -
  let ?w = "run [StartRecording, Resolve 0 ''audio/webm'', StopRecording, Fire 0 EvStop] mount"
  have r: "mediaRecorderRef ?w = Some 0"
    by (simp add: mount_def hook_defs timer_defs platform_defs)
  have u: "unbound ?w"
    by (simp add: unbound_def mount_def hook_defs timer_defs platform_defs)
  show ?thesis
    unfolding Let_def using r u reset_stop_toggle_idempotent [of ?w] by blast
qed

subsection \<open>C7: the recording time\<close>

lemma timer_inv_step: "timer_inv w \<Longrightarrow> timer_inv (step e w)"
  by (cases e)
     (auto simp add: timer_inv_def hook_defs timer_defs platform_defs onResume_funpow
           split: option.splits RecordingState.splits rtask.splits)

lemma timer_inv_run: "timer_inv w \<Longrightarrow> timer_inv (run es w)"
  by (induction es arbitrary: w) (auto simp add: timer_inv_step)

lemma timer_inv_mount: "timer_inv mount"
  by (simp add: timer_inv_def mount_def)

lemma session_inv_step:
  "session_inv r w \<Longrightarrow> session_event r e \<Longrightarrow> session_inv r (step e w)"
  by (cases e)
     (auto simp add: session_inv_def timer_inv_def hook_defs timer_defs platform_defs
             onResume_funpow
           split: option.splits RecordingState.splits rtask.splits if_splits)

lemma session_inv_run:
  "session_inv r w \<Longrightarrow> \<forall>x\<in>set xs. session_event r x \<Longrightarrow> session_inv r (run xs w)"
  by (induction xs arbitrary: w) (auto simp add: session_inv_step)

lemma session_inv_start:
  "timer_inv w \<Longrightarrow>
     session_inv (nrecorders w) (run [StartRecording, Resolve (nrequests w) m] w)"
  by (auto simp add: session_inv_def timer_inv_def hook_defs timer_defs platform_defs
        split: option.splits)

lemma session_step_time:
  assumes "session_inv r w" and "session_event r e"
  shows "(status (state w) = Paused \<and> mr_state (recorders w r) \<noteq> RecRecording \<longrightarrow>
            recordingTime (state (step e w)) = recordingTime (state w)) \<and>
         (status (state w) = Paused \<and>
          recordingTime (state (step e w)) \<noteq> recordingTime (state w) \<longrightarrow>
            is_Tick e \<and> mr_tasks (recorders w r) = [EvResume] \<and>
            recordingTime (state (step e w)) = recordingTime (state w) + 1) \<and>
         (recordingTime (state (step e w)) = recordingTime (state w) \<or>
            is_Tick e \<and> mr_state (recorders w r) = RecRecording \<and>
            recordingTime (state (step e w)) = recordingTime (state w) + 1)"
  using assms
  by (cases e)
     (auto simp add: session_inv_def timer_inv_def hook_defs timer_defs platform_defs
             onResume_funpow
           split: option.splits RecordingState.splits rtask.splits if_splits)

lemma step_time_any:
  "recordingTime (state (step e w)) = recordingTime (state w) \<or>
   is_Tick e \<and> recordingTime (state (step e w)) = recordingTime (state w) + 1 \<or>
   (e = StartRecording \<or> e = ReleaseResources) \<and> recordingTime (state (step e w)) = 0"
  by (cases e)
     (auto simp add: hook_defs platform_defs onResume_funpow
           split: option.splits RecordingState.splits rtask.splits)

lemma session_timer_live:
  assumes "session_inv r w" and "status (state w) = Recording"
    and "mr_state (recorders w r) = RecRecording"
  shows "\<exists>t. timerIntervalRef w = Some t \<and>
             recordingTime (state (step (Tick t) w)) = recordingTime (state w) + 1"
  using assms
  by (auto simp add: session_inv_def timer_inv_def tick_def split: option.splits)

text \<open>
  C7, as the code has it. \<open>togglePauseResume\<close> starts the timer in the call that resumes,
  and the status becomes \<open>Recording\<close> only when the recorder's \<open>resume\<close> event fires. Take
  any run \<open>pre\<close> of the mounted hook, then a start whose request is granted, then events
  \<open>xs\<close> of that session and one more, \<open>e\<close>; \<open>a\<close> is the world before \<open>e\<close> and \<open>b\<close> the one
  after.
  \<^item> While the status is \<open>Paused\<close> and the recorder has not been resumed, \<open>e\<close> leaves
    \<open>recordingTime\<close> as it is: the time is frozen from the pause to the call that resumes.
  \<^item> The one change while the status is \<open>Paused\<close>: \<open>e\<close> is a tick, the \<open>resume\<close> event is
    queued and has not fired, and the time grows by exactly 1.
  \<^item> No event of the session, a pause included, lowers or zeroes \<open>recordingTime\<close>: \<open>e\<close>
    leaves it, or \<open>e\<close> is a tick, the recorder records and it grows by exactly 1.
  \<^item> Whenever the status is \<open>Recording\<close> and the recorder records, so after every resume,
    the timer is set, and its next tick adds exactly 1 to the value the pause kept.
  \<^item> \<open>reset\<close> and \<open>startRecording\<close> set it to 0, and they alone: in any world \<open>w'\<close> at
    all, an event \<open>e'\<close> leaves \<open>recordingTime\<close>, or is a tick and adds 1, or is a start or
    a reset and sets it to 0.
  A tick is one expiry of the interval of 1000 ms.
\<close>

theorem recordingTime_frozen_until_resume:
  assumes es: "\<forall>x\<in>set (xs @ [e]). session_event (nrecorders (run pre mount)) x"
  shows "let w = run pre mount;
             a = run xs (run [StartRecording, Resolve (nrequests w) m] w);
             b = step e a
         in (status (state a) = Paused \<and>
             mr_state (recorders a (nrecorders w)) \<noteq> RecRecording \<longrightarrow>
               recordingTime (state b) = recordingTime (state a)) \<and>
            (status (state a) = Paused \<and> recordingTime (state b) \<noteq> recordingTime (state a) \<longrightarrow>
               is_Tick e \<and> mr_tasks (recorders a (nrecorders w)) = [EvResume] \<and>
               recordingTime (state b) = recordingTime (state a) + 1) \<and>
            (recordingTime (state b) = recordingTime (state a) \<or>
               is_Tick e \<and> mr_state (recorders a (nrecorders w)) = RecRecording \<and>
               recordingTime (state b) = recordingTime (state a) + 1) \<and>
            (status (state a) = Recording \<and>
             mr_state (recorders a (nrecorders w)) = RecRecording \<longrightarrow>
               (\<exists>t. timerIntervalRef a = Some t \<and>
                    recordingTime (state (step (Tick t) a)) = recordingTime (state a) + 1)) \<and>
            recordingTime (state (reset a)) = 0 \<and>
            recordingTime (state (startRecording a)) = 0 \<and>
            (recordingTime (state (step e' w')) = recordingTime (state w') \<or>
             is_Tick e' \<and> recordingTime (state (step e' w')) = recordingTime (state w') + 1 \<or>
             (e' = StartRecording \<or> e' = ReleaseResources) \<and>
               recordingTime (state (step e' w')) = 0)"
proof -
  define w where "w = run pre mount"
  define w1 where "w1 = run [StartRecording, Resolve (nrequests w) m] w"
  define a where "a = run xs w1"
  have "timer_inv w" unfolding w_def by (rule timer_inv_run [OF timer_inv_mount])
  then have "session_inv (nrecorders w) w1"
    unfolding w1_def by (rule session_inv_start)
  moreover have xs: "\<forall>x\<in>set xs. session_event (nrecorders w) x"
    using es by (simp add: w_def)
  ultimately have inv: "session_inv (nrecorders w) a"
    unfolding a_def by (rule session_inv_run)
  have e: "session_event (nrecorders w) e" using es by (simp add: w_def)
  note 1 = session_step_time [OF inv e]
  have 3: "status (state a) = Recording \<and>
           mr_state (recorders a (nrecorders w)) = RecRecording \<longrightarrow>
             (\<exists>t. timerIntervalRef a = Some t \<and>
                  recordingTime (state (step (Tick t) a)) = recordingTime (state a) + 1)"
    using session_timer_live [OF inv] by blast
  have 4: "recordingTime (state (reset a)) = 0 \<and> recordingTime (state (startRecording a)) = 0"
    by (simp add: reset_def startRecording_def getUserMedia_def INITIAL_STATE_def)
  note 5 = step_time_any [of e' w']
  show ?thesis
    using 1 3 4 5 unfolding Let_def w_def [symmetric] w1_def [symmetric] a_def [symmetric]
    by blast
qed

text \<open>
  One tick while recording, a pause, a call of \<open>togglePauseResume\<close> in the paused state
  (the time stays 1), the resume event, and a tick of the new timer (the time is 2).
\<close>

theorem recordingTime_frozen_until_resume_witness:
  "let a = run [StartRecording, Resolve 0 ''audio/webm'', Tick 0, TogglePauseResume,
                Fire 0 EvPause] mount;
       b = run [TogglePauseResume, Fire 0 EvResume] a
   in status (state a) = Paused \<and> mr_state (recorders a 0) = RecPaused \<and>
      recordingTime (state a) = 1 \<and>
      recordingTime (state (step TogglePauseResume a)) = 1 \<and>
      status (state b) = Recording \<and> recordingTime (state b) = 1 \<and>
      recordingTime (state (step (Tick 1) b)) = 2"
proof -
  let ?xs = "[Tick 0, TogglePauseResume, Fire 0 EvPause]"
  let ?ys = "[Tick 0, TogglePauseResume, Fire 0 EvPause, TogglePauseResume, Fire 0 EvResume]"
  have h1: "\<forall>x\<in>set (?xs @ [TogglePauseResume]). session_event (nrecorders (run [] mount)) x"
    by (simp add: mount_def)
  have h3: "\<forall>x\<in>set (?ys @ [Tick 1]). session_event (nrecorders (run [] mount)) x"
    by (simp add: mount_def)
  note paused = recordingTime_frozen_until_resume [OF h1, of "''audio/webm''",
      unfolded Let_def, THEN conjunct1]
  note ticked = recordingTime_frozen_until_resume [OF h3, of "''audio/webm''",
      unfolded Let_def, THEN conjunct2, THEN conjunct2, THEN conjunct1]
  show ?thesis
    using paused ticked
    by (simp add: mount_def hook_defs timer_defs platform_defs)
qed

text \<open>
  C7 as stated has the time unchanged for as long as the status is \<open>Paused\<close>. After a
  pause and the call that resumes, the status is \<open>Paused\<close> until the \<open>resume\<close> event fires
  and the new timer is set: its tick leaves the status \<open>Paused\<close> and takes the time from 0
  to 1.
\<close>

theorem recordingTime_paused_counterexample:
  "\<not> (let a = run [StartRecording, Resolve 0 ''audio/webm'', TogglePauseResume,
                   Fire 0 EvPause, TogglePauseResume] mount;
          b = step (Tick 1) a
      in status (state a) = Paused \<and> status (state b) = Paused \<longrightarrow>
           recordingTime (state b) = recordingTime (state a))"
  by (simp add: mount_def hook_defs timer_defs platform_defs)

subsection \<open>C8: the artifact is rebuilt from the chunks\<close>




subsection \<open>C9: the format is selected once\<close>

text \<open>
  C9. \<open>startRecording\<close> itself does not call \<open>getBestSupportedMimeType\<close>; the callback of
  its granted request calls it once and stores the result \<open>m\<close> in \<open>mimeTypeRef\<close>. No event of
  the session, \<open>togglePauseResume\<close>, \<open>stopRecording\<close> and the recorder's events included,
  calls it again or writes the ref: after any of them the count is one more than before
  the start and the ref holds \<open>m\<close>.
\<close>

theorem format_selected_once:
  assumes es: "\<forall>e\<in>set es. session_event (nrecorders w) e"
  shows "let w1 = step StartRecording w;
             w2 = step (Resolve (nrequests w) m) w1;
             w' = run es w2
         in mimeCalls w1 = mimeCalls w \<and>
            mimeCalls w2 = Suc (mimeCalls w) \<and> mimeTypeRef w2 = Some m \<and>
            mimeCalls w' = Suc (mimeCalls w) \<and> mimeTypeRef w' = Some m"
proof -
  define w2 where "w2 = run [StartRecording, Resolve (nrequests w) m] w"
  have s: "nrecorders w2 = Suc (nrecorders w) \<and> mimeTypeRef w2 = Some m \<and>
      mimeCalls w2 = Suc (mimeCalls w)"
    using start_resolve [of w m w2] by (simp add: w2_def)
  have c: "mimeCalls (step StartRecording w) = mimeCalls w"
    by (simp add: startRecording_def getUserMedia_def reset_def)
  have "mimeCalls (run es w2) = mimeCalls w2 \<and> mimeTypeRef (run es w2) = mimeTypeRef w2"
    using session_run_frame [OF es, of w2] s by simp
  then show ?thesis using s c by (simp add: w2_def Let_def)
qed

text \<open>
  A session with a chunk, a pause, a resume and a stop: one call, and the format of the
  start is the one stored at the end.
\<close>

theorem format_selected_once_witness:
  "let w' = run [StartRecording, Resolve 0 ''audio/webm'', DataAvailable 0 (silence 120),
                 TogglePauseResume, Fire 0 EvPause, TogglePauseResume, Fire 0 EvResume,
                 StopRecording, Fire 0 EvStop] mount
   in mimeCalls w' = 1 \<and> mimeTypeRef w' = Some ''audio/webm'' \<and> status (state w') = Stopped"
proof -
  let ?es = "[DataAvailable 0 (silence 120), TogglePauseResume, Fire 0 EvPause,
              TogglePauseResume, Fire 0 EvResume, StopRecording, Fire 0 EvStop]"
  have h: "\<forall>e\<in>set ?es. session_event (nrecorders mount) e"
    by (simp add: mount_def)
  note sel = format_selected_once [OF h, of "''audio/webm''", unfolded Let_def,
      THEN conjunct2, THEN conjunct2, THEN conjunct2]
  have n: "nrequests mount = 0 \<and> mimeCalls mount = 0" by (simp add: mount_def)
  have s: "status (state (run (StartRecording # Resolve 0 ''audio/webm'' # ?es) mount)) = Stopped"
    by (simp add: mount_def hook_defs timer_defs platform_defs silence_def blob_size_def)
  show ?thesis
    unfolding Let_def using sel n s by simp
qed

subsection \<open>C10: a start resets first\<close>

text \<open>
  C10. In every world, whatever its status, \<open>startRecording\<close> is the device request made
  in the world that \<open>reset\<close> leaves. When it returns, the state is the initial one (status
  \<open>Idle\<close>, time 0, no blob, no URL, no error), \<open>chunksRef\<close> is empty, no recorder or stream is
  bound, the timer the ref held is cleared and the ref is empty, and the one new thing is
  the pending request.
\<close>

theorem startRecording_resets_first:
  "startRecording w = snd (getUserMedia (reset w)) \<and>
   state (reset w) = INITIAL_STATE \<and>
   state (startRecording w) =
     \<lparr>status = Idle, recordingTime = 0, recordingBlob = None, blobUrl = None, error = None\<rparr> \<and>
   chunksRef (startRecording w) = [] \<and>
   mediaRecorderRef (startRecording w) = None \<and>
   mediaStreamRef (startRecording w) = None \<and>
   timerIntervalRef (startRecording w) = None \<and>
   set (intervals (startRecording w)) = set (intervals w) - set_option (timerIntervalRef w) \<and>
   requests (startRecording w) = requests (reset w) @ [nrequests w]"
  by (auto simp add: startRecording_def getUserMedia_def reset_def clearTimer_def
        clearInterval_def INITIAL_STATE_def split: option.splits)

end
